theory Spec2Isabelle
  imports Main "HOL-Library.Word"
begin

section \<open>FlexBase: data model\<close>

text \<open>
  The documents of the three Mongoose models and the state of the database. An ObjectId is
  an opaque identifier; two identifiers are the same exactly when their \<open>toString()\<close>
  forms are equal, which is the comparison every handler uses. A timestamp is a number of
  milliseconds. Free text whose length the handlers validate is a JavaScript string, a
  sequence of UTF-16 code units, so that \<open>length\<close> is JavaScript's \<open>.length\<close>.
  The identifier in a route's path is well formed: for any other string \<open>findById\<close>
  throws a CastError, which the central error handler answers with 404.
\<close>

type_synonym oid = nat
type_synonym timestamp = nat
type_synonym jsstring = "16 word list"

text \<open>
  Modelled from the spec: models/User.js is not among the sources. Section 3 of the
  specification gives a user an identity, profile fields and the two relationship sets
  \<open>followers\<close> and \<open>following\<close>; the handlers read \<open>username\<close>, \<open>followers\<close> and
  \<open>following\<close> and use the two sets as arrays (push, filter, includes, length).
\<close>

record user =
  username :: string
  followers :: "oid list"
  following :: "oid list"

text \<open>The Post schema (postSchema): embedded tags, likes and comments.\<close>

datatype mediaType = Image | Video

datatype visibility = Public | Private | Followers

record tag =
  tag_name :: "string option"
  tag_type :: "string option"

record like =
  like_user :: oid
  like_createdAt :: timestamp

record comment =
  comment_user :: oid
  comment_text :: jsstring
  comment_createdAt :: timestamp

record post =
  post_user :: oid
  caption :: jsstring
  mediaURL :: string
  mediaType :: mediaType
  tags :: "tag list"
  likes :: "like list"
  comments :: "comment list"
  userCollection :: "oid option"
  visibility :: visibility

text \<open>The UserCollection schema (models/UserCollection.js).\<close>

record user_collection =
  coll_user :: oid
  coll_name :: string
  description :: string
  category :: string
  isPrivate :: bool
  coverImage :: string
  items :: "oid list"

text \<open>The database: one map from \<open>_id\<close> to document for each model.\<close>

record store =
  users :: "oid \<rightharpoonup> user"
  posts :: "oid \<rightharpoonup> post"
  collections :: "oid \<rightharpoonup> user_collection"

section \<open>Responses, thrown errors and emitted events\<close>

text \<open>
  A handler ends with a response. \<open>Failure\<close> is the body \<open>{success: false, message}\<close>
  (or, for a page route, the error template rendered with that message) with its HTTP
  status; \<open>Success\<close> is a body with \<open>success: true\<close> (or a rendered content page) with
  its status and the handler's own payload.
\<close>

datatype 'a response = Failure nat string | Success nat 'a

text \<open>
  What a handler passes to \<open>next(error)\<close>, and the central error handler of the
  application for an API request: it maps the error's name to a status and a message, and
  answers 500 with the error's own message otherwise.
\<close>

datatype thrown =
    CastError
  | DuplicateKey string
  | ValidationError "string list"
  | JsonWebTokenError
  | TokenExpiredError
  | TypeError string
  | Error string

fun join :: "string list \<Rightarrow> string" where
  "join [] = []"
| "join [m] = m"
| "join (m # ms) = m @ '', '' @ join ms"

fun errorHandler :: "thrown \<Rightarrow> 'a response" where
  "errorHandler CastError = Failure 404 ''Resource not found''"
| "errorHandler (DuplicateKey field) =
     Failure 400 (if field = ''email'' then ''Email already exists''
                  else if field = ''username'' then ''Username already taken''
                  else ''Duplicate field value entered'')"
| "errorHandler (ValidationError msgs) = Failure 400 (join msgs)"
| "errorHandler JsonWebTokenError = Failure 401 ''Invalid token''"
| "errorHandler TokenExpiredError = Failure 401 ''Token expired''"
| "errorHandler (TypeError m) = Failure 500 (if m = [] then ''Server Error'' else m)"
| "errorHandler (Error m) = Failure 500 (if m = [] then ''Server Error'' else m)"

text \<open>
  Real-time events: \<open>req.io.to(room).emit(name, payload)\<close>. A room is the personal
  channel \<open>user_<id>\<close> or the channel \<open>post_<id>\<close> of a post.
\<close>

datatype room = UserRoom oid | PostRoom oid

datatype ntype = LikeN | CommentN | FollowN

record comment_view =
  cv_comment :: comment
  cv_author :: "string option"

datatype event =
    NewPost string oid oid string
  | PostLike oid oid string bool nat
  | PostComment oid comment_view nat
  | Notification ntype string oid "oid option" string

type_synonym emitted = "room \<times> event"

section \<open>Authorization guards\<close>

text \<open>
  Modelled from the spec: middleware/auth.js is not among the sources. Section 2 of the
  specification: given a request's credential, the guard resolves the acting identity or
  rejects; a variant allows anonymous access with an optional identity. The credential of a
  request is modelled by the identity it resolves to, \<open>None\<close> for a missing or invalid one.
  The guard loads the user document, which the handlers read as \<open>req.user\<close>. A route
  mounted with no guard runs its handler with \<open>req.user\<close> undefined, whatever the
  request carries: nothing else in server.js assigns it.
\<close>

type_synonym req_user = "oid \<times> user"

datatype guard = NoGuard | Auth | OptionalAuth

fun run_guard :: "guard \<Rightarrow> store \<Rightarrow> oid option \<Rightarrow> (nat \<times> string) + req_user option" where
  "run_guard NoGuard s cred = Inr None"
| "run_guard OptionalAuth s cred =
     (case cred of None \<Rightarrow> Inr None
      | Some u \<Rightarrow> (case users s u of None \<Rightarrow> Inr None | Some d \<Rightarrow> Inr (Some (u, d))))"
| "run_guard Auth s cred =
     (case cred of None \<Rightarrow> Inl (401, ''Access denied'')
      | Some u \<Rightarrow> (case users s u of None \<Rightarrow> Inl (401, ''Access denied'')
                   | Some d \<Rightarrow> Inr (Some (u, d))))"

section \<open>Social graph: POST /api/users/:id/follow\<close>

record follow_body =
  fb_message :: string
  fb_isFollowing :: bool
  fb_followersCount :: nat

text \<open>
  The handler of routes/users.js, after the guard \<open>auth\<close> has set \<open>req.user\<close>.
  \<open>following\<close> is a Mongoose array of identifiers, whose \<open>includes\<close> compares
  identifiers by value. The two \<open>save()\<close> calls of \<open>Promise.all\<close> write two
  different documents. When the acting user's document is gone, reading its \<open>following\<close>
  throws, and the central error handler answers 500.
\<close>

definition followToggle ::
  "store \<Rightarrow> req_user \<Rightarrow> oid \<Rightarrow> follow_body response \<times> store \<times> emitted list" where
  "followToggle s ru tid =
     (case users s tid of
        None \<Rightarrow> (Failure 404 ''User not found'', s, [])
      | Some userToFollow \<Rightarrow>
          if tid = fst ru then (Failure 400 ''You cannot follow yourself'', s, [])
          else
            (case users s (fst ru) of
               None \<Rightarrow> (errorHandler (TypeError ''Cannot read properties of null''), s, [])
             | Some currentUser \<Rightarrow>
                 if tid \<in> set (following currentUser) then
                   (let cu = currentUser\<lparr>following :=
                                filter (\<lambda>i. i \<noteq> tid) (following currentUser)\<rparr>;
                        tf = userToFollow\<lparr>followers :=
                                filter (\<lambda>i. i \<noteq> fst ru) (followers userToFollow)\<rparr>
                    in (Success 200 \<lparr>fb_message = ''User unfollowed'', fb_isFollowing = False,
                                     fb_followersCount = length (followers tf)\<rparr>,
                        s\<lparr>users := (users s)(fst ru \<mapsto> cu, tid \<mapsto> tf)\<rparr>,
                        []))
                 else
                   (let cu = currentUser\<lparr>following := following currentUser @ [tid]\<rparr>;
                        tf = userToFollow\<lparr>followers := followers userToFollow @ [fst ru]\<rparr>
                    in (Success 200 \<lparr>fb_message = ''User followed'', fb_isFollowing = True,
                                     fb_followersCount = length (followers tf)\<rparr>,
                        s\<lparr>users := (users s)(fst ru \<mapsto> cu, tid \<mapsto> tf)\<rparr>,
                        [(UserRoom tid,
                          Notification FollowN (username currentUser) (fst ru) None
                            (username currentUser @ '' started following you''))]))))"

text \<open>The route as mounted: the guard, then the handler.\<close>

definition route_follow ::
  "store \<Rightarrow> oid option \<Rightarrow> oid \<Rightarrow> follow_body response \<times> store \<times> emitted list" where
  "route_follow s cred tid =
     (case run_guard Auth s cred of
        Inl (n, m) \<Rightarrow> (Failure n m, s, [])
      | Inr None \<Rightarrow> (Failure 401 ''Access denied'', s, [])
      | Inr (Some ru) \<Rightarrow> followToggle s ru tid)"

section \<open>Validators\<close>

text \<open>
  The request validators are express-validator's, the document validators Mongoose's; both
  are libraries. \<open>notEmpty()\<close> fails on the empty string. \<open>isLength({max})\<close> is
  validator.js's, which counts a surrogate pair as one character: it scans for the pattern
  \<open>[\uD800-\uDBFF][\uDC00-\uDFFF]\<close> from left to right and subtracts the number
  of matches from \<open>.length\<close>. A schema's \<open>maxlength\<close> compares \<open>.length\<close>, and
  \<open>required\<close> on a string rejects the empty string. The texts of Mongoose's messages
  are abbreviated. \<open>save()\<close> validates the whole document, a loaded one as well as a
  new one: every required path, and every element of the embedded arrays.
\<close>

definition highSurrogate :: "16 word \<Rightarrow> bool" where
  "highSurrogate w = (0xD800 \<le> w \<and> w \<le> 0xDBFF)"

definition lowSurrogate :: "16 word \<Rightarrow> bool" where
  "lowSurrogate w = (0xDC00 \<le> w \<and> w \<le> 0xDFFF)"

fun surrogatePairs :: "jsstring \<Rightarrow> nat" where
  "surrogatePairs (a # b # r) =
     (if highSurrogate a \<and> lowSurrogate b then Suc (surrogatePairs r)
      else surrogatePairs (b # r))"
| "surrogatePairs [a] = 0"
| "surrogatePairs [] = 0"

definition notEmpty :: "jsstring \<Rightarrow> bool" where
  "notEmpty t = (t \<noteq> [])"

definition isLength :: "nat \<Rightarrow> jsstring \<Rightarrow> bool" where
  "isLength mx t = (length t - surrogatePairs t \<le> mx)"

definition tagTypeEnum :: "string list" where
  "tagTypeEnum = [''brand'', ''category'', ''year'', ''rarity'', ''color'', ''size'']"

fun parseVisibility :: "string \<Rightarrow> visibility option" where
  "parseVisibility v =
     (if v = ''public'' then Some Public
      else if v = ''private'' then Some Private
      else if v = ''followers'' then Some Followers
      else None)"

definition validateTag :: "tag \<Rightarrow> string list" where
  "validateTag t =
     (case tag_type t of
        None \<Rightarrow> []
      | Some ty \<Rightarrow> if ty \<in> set tagTypeEnum then []
                   else [ty @ '' is not a valid enum value for path type''])"

definition validateComment :: "comment \<Rightarrow> string list" where
  "validateComment c =
     (if comment_text c = [] then [''Path text is required'']
      else if 500 < length (comment_text c)
      then [''Path text is longer than the maximum allowed length (500)'']
      else [])"

definition validateCaption :: "jsstring \<Rightarrow> string list" where
  "validateCaption c =
     (if c = [] then [''Path caption is required'']
      else if 1000 < length c
      then [''Path caption is longer than the maximum allowed length (1000)'']
      else [])"

definition validateMediaURL :: "string \<Rightarrow> string list" where
  "validateMediaURL u = (if u = [] then [''Path mediaURL is required''] else [])"

text \<open>
  The validation that \<open>post.save()\<close> runs: the caption, the media reference, every tag
  and every comment. The owner is always present, the media kind and the visibility of a
  stored post are values of their enums, and a like has no validator.
\<close>

definition validatePost :: "post \<Rightarrow> string list" where
  "validatePost p =
     validateCaption (caption p) @ validateMediaURL (mediaURL p)
     @ concat (map validateTag (tags p)) @ concat (map validateComment (comments p))"

text \<open>The validation that \<open>collection.save()\<close> runs (models/UserCollection.js).\<close>

definition categoryEnum :: "string list" where
  "categoryEnum =
     [''sneakers'', ''watches'', ''luxury'', ''art'', ''cars'', ''jewelry'', ''other'']"

definition validateCollection :: "user_collection \<Rightarrow> string list" where
  "validateCollection c =
     (if coll_name c = [] then [''Path name is required'']
      else if 50 < length (coll_name c)
      then [''Path name is longer than the maximum allowed length (50)'']
      else [])
     @ (if 200 < length (description c)
        then [''Path description is longer than the maximum allowed length (200)'']
        else [])
     @ (if category c = [] then [''Path category is required'']
        else if category c \<in> set categoryEnum then []
        else [category c @ '' is not a valid enum value for path category''])"

section \<open>Posts: routes/posts.js\<close>

text \<open>JavaScript's \<open>findIndex\<close> (\<open>None\<close> for -1) and \<open>splice(i, 1)\<close>.\<close>

fun findIndex :: "('a \<Rightarrow> bool) \<Rightarrow> 'a list \<Rightarrow> nat option" where
  "findIndex P [] = None"
| "findIndex P (x # xs) = (if P x then Some 0 else map_option Suc (findIndex P xs))"

definition splice1 :: "nat \<Rightarrow> 'a list \<Rightarrow> 'a list" where
  "splice1 i xs = take i xs @ drop (Suc i) xs"

text \<open>
  A post as the read routes return it: \<open>populate\<close> replaces the references to the owner,
  the collection and the commenters by the selected fields of the documents they name, and
  by null where no such document exists.
\<close>

record post_view =
  pv_id :: oid
  pv_post :: post
  pv_user :: "string option"
  pv_collection :: "(string \<times> string) option"
  pv_commenters :: "string option list"

definition populateUser :: "store \<Rightarrow> oid \<Rightarrow> string option" where
  "populateUser s u = map_option username (users s u)"

definition populatePost :: "store \<Rightarrow> oid \<Rightarrow> post \<Rightarrow> post_view" where
  "populatePost s pid p =
     \<lparr>pv_id = pid, pv_post = p, pv_user = populateUser s (post_user p),
      pv_collection =
        (case userCollection p of
           None \<Rightarrow> None
         | Some c \<Rightarrow> map_option (\<lambda>d. (coll_name d, category d)) (collections s c)),
      pv_commenters = map (\<lambda>c. populateUser s (comment_user c)) (comments p)\<rparr>"

subsection \<open>GET /api/posts/:id and the page /post/:id\<close>

definition getPost :: "store \<Rightarrow> oid \<Rightarrow> post_view response" where
  "getPost s pid =
     (case posts s pid of
        None \<Rightarrow> Failure 404 ''Post not found''
      | Some p \<Rightarrow> Success 200 (populatePost s pid p))"

definition route_getPost :: "store \<Rightarrow> oid option \<Rightarrow> oid \<Rightarrow> post_view response" where
  "route_getPost s cred pid =
     (case run_guard NoGuard s cred of
        Inl (n, m) \<Rightarrow> Failure n m
      | Inr ru \<Rightarrow> getPost s pid)"

record post_page =
  pp_user :: "req_user option"
  pp_post :: post_view
  pp_isLiked :: bool
  pp_isOwner :: bool
  pp_likesCount :: nat
  pp_commentsCount :: nat

text \<open>
  The page handler reads \<open>post.user.username\<close> for the title: when the owner's document
  does not exist, that throws, and the handler's own \<open>catch\<close> renders the error page
  (with the default status 200).
\<close>

definition viewPost :: "store \<Rightarrow> req_user option \<Rightarrow> oid \<Rightarrow> post_page response" where
  "viewPost s ru pid =
     (case posts s pid of
        None \<Rightarrow> Failure 404 ''Post not found''
      | Some p \<Rightarrow>
          (case users s (post_user p) of
             None \<Rightarrow> Failure 200 ''Failed to load post''
           | Some owner \<Rightarrow>
               Success 200
                 \<lparr>pp_user = ru, pp_post = populatePost s pid p,
                  pp_isLiked =
                    (case ru of None \<Rightarrow> False
                     | Some r \<Rightarrow> list_ex (\<lambda>l. like_user l = fst r) (likes p)),
                  pp_isOwner =
                    (case ru of None \<Rightarrow> False | Some r \<Rightarrow> post_user p = fst r),
                  pp_likesCount = length (likes p),
                  pp_commentsCount = length (comments p)\<rparr>))"

definition route_viewPost :: "store \<Rightarrow> oid option \<Rightarrow> oid \<Rightarrow> post_page response" where
  "route_viewPost s cred pid =
     (case run_guard OptionalAuth s cred of
        Inl (n, m) \<Rightarrow> Failure n m
      | Inr ru \<Rightarrow> viewPost s ru pid)"

subsection \<open>POST /api/posts/:id/like\<close>

record like_body =
  lb_isLiked :: bool
  lb_totalLikes :: nat

text \<open>
  \<open>now\<close> is the value of \<open>Date.now\<close> that the schema's default gives a new like.
  \<open>post.save()\<close> validates the loaded post; when it throws, the central handler
  answers, and nothing is written or emitted: the emits come after the save.
\<close>

definition toggleLike ::
  "store \<Rightarrow> timestamp \<Rightarrow> req_user \<Rightarrow> oid \<Rightarrow> like_body response \<times> store \<times> emitted list" where
  "toggleLike s now ru pid =
     (case posts s pid of
        None \<Rightarrow> (Failure 404 ''Post not found'', s, [])
      | Some p \<Rightarrow>
          (let likeIndex = findIndex (\<lambda>l. like_user l = fst ru) (likes p);
               isLiked = (case likeIndex of Some i \<Rightarrow> False | None \<Rightarrow> True);
               likes' = (case likeIndex of
                           Some i \<Rightarrow> splice1 i (likes p)
                         | None \<Rightarrow> likes p @ [\<lparr>like_user = fst ru, like_createdAt = now\<rparr>]);
               p' = p\<lparr>likes := likes'\<rparr>
           in (case validatePost p' of
                 m # ms \<Rightarrow> (errorHandler (ValidationError (m # ms)), s, [])
               | [] \<Rightarrow>
                   (Success 200 \<lparr>lb_isLiked = isLiked, lb_totalLikes = length likes'\<rparr>,
                    s\<lparr>posts := (posts s)(pid \<mapsto> p')\<rparr>,
                    (PostRoom pid,
                     PostLike pid (fst ru) (username (snd ru)) isLiked (length likes'))
                    # (if post_user p \<noteq> fst ru \<and> isLiked
                       then [(UserRoom (post_user p),
                              Notification LikeN (username (snd ru)) (fst ru) (Some pid)
                                (username (snd ru) @ '' liked your post''))]
                       else [])))))"

subsection \<open>POST /api/posts/:id/comment\<close>

record comment_body =
  cb_message :: string
  cb_comment :: comment_view
  cb_totalComments :: nat

text \<open>
  The request validators run first; \<open>post.save()\<close> then validates the loaded post
  with the pushed comment against the schema and throws a ValidationError, which the
  central handler answers, when it fails. Nothing is written or emitted in that case.
\<close>

definition addComment ::
  "store \<Rightarrow> timestamp \<Rightarrow> req_user \<Rightarrow> oid \<Rightarrow> jsstring
     \<Rightarrow> comment_body response \<times> store \<times> emitted list" where
  "addComment s now ru pid text =
     (if \<not> (notEmpty text \<and> isLength 500 text) then (Failure 400 ''Validation failed'', s, [])
      else
        (case posts s pid of
           None \<Rightarrow> (Failure 404 ''Post not found'', s, [])
         | Some p \<Rightarrow>
             (let newComment =
                    \<lparr>comment_user = fst ru, comment_text = text, comment_createdAt = now\<rparr>;
                  p' = p\<lparr>comments := comments p @ [newComment]\<rparr>
              in (case validatePost p' of
                    m # ms \<Rightarrow> (errorHandler (ValidationError (m # ms)), s, [])
                  | [] \<Rightarrow>
                      (let s' = s\<lparr>posts := (posts s)(pid \<mapsto> p')\<rparr>;
                           populatedComment =
                             \<lparr>cv_comment = last (comments p'),
                              cv_author = populateUser s' (comment_user (last (comments p')))\<rparr>;
                           total = length (comments p')
                       in (Success 201
                             \<lparr>cb_message = ''Comment added successfully'',
                              cb_comment = populatedComment, cb_totalComments = total\<rparr>,
                           s',
                           (PostRoom pid, PostComment pid populatedComment total)
                           # (if post_user p \<noteq> fst ru
                              then [(UserRoom (post_user p),
                                     Notification CommentN (username (snd ru)) (fst ru) (Some pid)
                                       (username (snd ru) @ '' commented on your post''))]
                              else [])))))))"

subsection \<open>POST /api/posts\<close>

text \<open>
  The multipart request: the caption (the empty string when absent), the tag array when
  present, the collection named when present, the visibility string when present, and the
  media file when there is one. The body's \<open>tags\<close> is an array and its
  \<open>userCollection\<close> a well-formed identifier; other values fail the request validators.

  Of the file, the upload middleware reads \<open>path.extname(file.originalname)\<close> and
  \<open>file.mimetype\<close>; \<open>uniqueSuffix\<close> is the prefix that the storage builds from the
  clock and a random number. The file is within the size limit, which the library enforces
  while it reads the file.
\<close>

record upload =
  uniqueSuffix :: string
  extname :: string
  mimetype :: string

text \<open>
  \<open>fileFilter\<close>: the pattern \<open>/jpeg|jpg|png|gif|mp4|mov/\<close> has no anchors, so its
  \<open>test\<close> holds when one of the six alternatives occurs somewhere in the string; it is
  applied to the lower-cased extension and to the MIME type. A file that fails it is
  refused with an Error, before the handler runs.
\<close>

fun includesStr :: "string \<Rightarrow> string \<Rightarrow> bool" where
  "includesStr a [] = (a = [])"
| "includesStr a (c # cs) = (take (length a) (c # cs) = a \<or> includesStr a cs)"

definition toLowerCase :: "string \<Rightarrow> string" where
  "toLowerCase =
     map (\<lambda>c. case map_of (zip ''ABCDEFGHIJKLMNOPQRSTUVWXYZ'' ''abcdefghijklmnopqrstuvwxyz'') c of
                None \<Rightarrow> c
              | Some l \<Rightarrow> l)"

definition allowedTypes :: "string \<Rightarrow> bool" where
  "allowedTypes str =
     list_ex (\<lambda>a. includesStr a str) [''jpeg'', ''jpg'', ''png'', ''gif'', ''mp4'', ''mov'']"

definition fileFilter :: "upload \<Rightarrow> bool" where
  "fileFilter f = (allowedTypes (mimetype f) \<and> allowedTypes (toLowerCase (extname f)))"

text \<open>\<open>filename\<close> of the disk storage: the unique suffix, then the extension.\<close>

definition filename :: "upload \<Rightarrow> string" where
  "filename f = uniqueSuffix f @ extname f"

record post_req =
  pr_caption :: jsstring
  pr_tags :: "tag list option"
  pr_userCollection :: "oid option"
  pr_visibility :: "string option"
  pr_file :: "upload option"

text \<open>\<open>tag => ({name: tag.name, type: tag.type || 'general'})\<close>: the empty string is falsy.\<close>

definition processTag :: "tag \<Rightarrow> tag" where
  "processTag t =
     \<lparr>tag_name = tag_name t,
      tag_type = (case tag_type t of
                    None \<Rightarrow> Some ''general''
                  | Some ty \<Rightarrow> if ty = [] then Some ''general'' else Some ty)\<rparr>"

text \<open>
  \<open>new Post({...})\<close> followed by \<open>post.save()\<close>: the new document is validated
  against the schema, the visibility string against its enum as well; the result is the
  document that is stored, or the messages of the ValidationError.
\<close>

definition newPost ::
  "oid \<Rightarrow> jsstring \<Rightarrow> string \<Rightarrow> mediaType \<Rightarrow> tag list \<Rightarrow> oid option \<Rightarrow> string
     \<Rightarrow> string list + post" where
  "newPost uid cap url mt tgs coll vis =
     (case parseVisibility vis of
        None \<Rightarrow>
          Inl (validateCaption cap @ validateMediaURL url @ concat (map validateTag tgs)
               @ [vis @ '' is not a valid enum value for path visibility''])
      | Some v \<Rightarrow>
          (let p = \<lparr>post_user = uid, caption = cap, mediaURL = url, mediaType = mt,
                    tags = tgs, likes = [], comments = [], userCollection = coll,
                    visibility = v\<rparr>
           in (case validatePost p of
                 m # ms \<Rightarrow> Inl (m # ms)
               | [] \<Rightarrow> Inr p)))"

record create_body =
  crb_message :: string
  crb_post :: post_view

text \<open>
  \<open>newId\<close> is the identifier that the driver generates for the new document. The
  middleware of the route runs in the order \<open>auth\<close>, \<open>upload.single('media')\<close>, the
  request validators, the handler.
\<close>

definition createPost ::
  "store \<Rightarrow> oid \<Rightarrow> req_user \<Rightarrow> post_req \<Rightarrow> create_body response \<times> store \<times> emitted list" where
  "createPost s newId ru req =
     (if (case pr_file req of None \<Rightarrow> False | Some file \<Rightarrow> \<not> fileFilter file)
      then (errorHandler (Error ''Invalid file type. Only images and videos are allowed.''),
            s, [])
      else if \<not> (notEmpty (pr_caption req) \<and> isLength 1000 (pr_caption req))
      then (Failure 400 ''Validation failed'', s, [])
      else
        (case pr_file req of
           None \<Rightarrow> (Failure 400 ''Media file is required'', s, [])
         | Some file \<Rightarrow>
             if (case pr_userCollection req of
                   None \<Rightarrow> False
                 | Some c \<Rightarrow> (case collections s c of
                                None \<Rightarrow> True
                              | Some d \<Rightarrow> coll_user d \<noteq> fst ru))
             then (Failure 404 ''Collection not found or not owned by user'', s, [])
             else
               (let processedTags = (case pr_tags req of None \<Rightarrow> [] | Some ts \<Rightarrow> map processTag ts);
                    mt = (if take 6 (mimetype file) = ''video/'' then Video else Image);
                    vis = (case pr_visibility req of
                             None \<Rightarrow> ''public''
                           | Some v \<Rightarrow> if v = [] then ''public'' else v)
                in (case newPost (fst ru) (pr_caption req) (''/uploads/posts/'' @ filename file)
                           mt processedTags (pr_userCollection req) vis of
                      Inl msgs \<Rightarrow> (errorHandler (ValidationError msgs), s, [])
                    | Inr p \<Rightarrow>
                        (let s1 = s\<lparr>posts := (posts s)(newId \<mapsto> p)\<rparr>;
                             s2 = (case pr_userCollection req of
                                     None \<Rightarrow> s1
                                   | Some c \<Rightarrow>
                                       s1\<lparr>collections :=
                                            (\<lambda>k. if k = c
                                                 then map_option
                                                        (\<lambda>d. d\<lparr>items := items d @ [newId]\<rparr>)
                                                        (collections s1 k)
                                                 else collections s1 k)\<rparr>)
                         in (Success 201
                               \<lparr>crb_message = ''Post created successfully'',
                                crb_post = populatePost s2 newId p\<rparr>,
                             s2,
                             map (\<lambda>followerId.
                                    (UserRoom followerId,
                                     NewPost (username (snd ru)) (fst ru) newId
                                       (username (snd ru) @ '' posted a new item'')))
                                 (followers (snd ru))))))))"

section \<open>Collections: routes/collections.js\<close>

text \<open>
  A collection as GET /api/collections/:id returns it: the owner and the items populated,
  each item with its own owner; an item whose post does not exist is dropped.
\<close>

record collection_view =
  clv_id :: oid
  clv_collection :: user_collection
  clv_user :: "string option"
  clv_items :: "(oid \<times> post \<times> string option) list"

definition populateCollection :: "store \<Rightarrow> oid \<Rightarrow> user_collection \<Rightarrow> collection_view" where
  "populateCollection s cid c =
     \<lparr>clv_id = cid, clv_collection = c, clv_user = populateUser s (coll_user c),
      clv_items =
        concat (map (\<lambda>i. case posts s i of
                            None \<Rightarrow> []
                          | Some p \<Rightarrow> [(i, p, populateUser s (post_user p))])
                    (items c))\<rparr>"

subsection \<open>GET /api/collections/:id\<close>

text \<open>
  \<open>collection.isPrivate && (!req.user || collection.user._id.toString() !==
  req.user._id.toString())\<close>: the second operand of \<open>||\<close> is evaluated only when
  \<open>req.user\<close> is defined, and reading \<open>_id\<close> of a populated owner that does not exist
  throws.
\<close>

definition getCollection :: "store \<Rightarrow> req_user option \<Rightarrow> oid \<Rightarrow> collection_view response" where
  "getCollection s ru cid =
     (case collections s cid of
        None \<Rightarrow> Failure 404 ''Collection not found''
      | Some c \<Rightarrow>
          if isPrivate c then
            (case ru of
               None \<Rightarrow> Failure 403 ''This collection is private''
             | Some r \<Rightarrow>
                 (case users s (coll_user c) of
                    None \<Rightarrow> errorHandler (TypeError ''Cannot read properties of null'')
                  | Some owner \<Rightarrow>
                      if coll_user c \<noteq> fst r then Failure 403 ''This collection is private''
                      else Success 200 (populateCollection s cid c)))
          else Success 200 (populateCollection s cid c))"

text \<open>
  The route is declared as \<open>router.get('/:id', async (req, res, next) => ...)\<close> and the
  router is mounted with \<open>app.use('/api/collections', collectionRoutes)\<close>: no guard.
\<close>

definition route_getCollection ::
  "store \<Rightarrow> oid option \<Rightarrow> oid \<Rightarrow> collection_view response" where
  "route_getCollection s cred cid =
     (case run_guard NoGuard s cred of
        Inl (n, m) \<Rightarrow> Failure n m
      | Inr ru \<Rightarrow> getCollection s ru cid)"

subsection \<open>DELETE /api/collections/:id\<close>

text \<open>\<open>Post.updateMany({userCollection: id}, {$unset: {userCollection: 1}})\<close>.\<close>

definition unsetCollection :: "oid \<Rightarrow> (oid \<rightharpoonup> post) \<Rightarrow> (oid \<rightharpoonup> post)" where
  "unsetCollection cid ps =
     (\<lambda>k. map_option
            (\<lambda>p. if userCollection p = Some cid then p\<lparr>userCollection := None\<rparr> else p)
            (ps k))"

definition deleteCollection ::
  "store \<Rightarrow> req_user \<Rightarrow> oid \<Rightarrow> string response \<times> store" where
  "deleteCollection s ru cid =
     (case collections s cid of
        None \<Rightarrow> (Failure 404 ''Collection not found'', s)
      | Some c \<Rightarrow>
          if coll_user c \<noteq> fst ru
          then (Failure 403 ''Not authorized to delete this collection'', s)
          else (Success 200 ''Collection deleted successfully'',
                s\<lparr>posts := unsetCollection cid (posts s),
                  collections := (collections s)(cid := None)\<rparr>))"

subsection \<open>POST /api/collections/:id/add-post\<close>

text \<open>
  The body's \<open>postId\<close> is \<open>None\<close> when it is absent or not a well-formed identifier,
  which fails \<open>isMongoId()\<close>. \<open>collection.items\<close> is a Mongoose array, whose
  \<open>includes\<close> compares identifiers by value. \<open>Promise.all([collection.save(),
  post.save()])\<close> starts both saves: each validates its own document and writes it when
  it is valid, whatever the other does, and the request is answered with the
  ValidationError of a save that fails (the collection's when both fail).
\<close>

definition addPostToCollection ::
  "store \<Rightarrow> req_user \<Rightarrow> oid \<Rightarrow> oid option \<Rightarrow> string response \<times> store" where
  "addPostToCollection s ru cid postId =
     (case postId of
        None \<Rightarrow> (Failure 400 ''Validation failed'', s)
      | Some pid \<Rightarrow>
          (case collections s cid of
             None \<Rightarrow> (Failure 404 ''Collection not found'', s)
           | Some c \<Rightarrow>
               (case posts s pid of
                  None \<Rightarrow> (Failure 404 ''Post not found'', s)
                | Some p \<Rightarrow>
                    if coll_user c \<noteq> fst ru
                    then (Failure 403 ''Not authorized to modify this collection'', s)
                    else if post_user p \<noteq> fst ru
                    then (Failure 403 ''Can only add your own posts to collections'', s)
                    else if pid \<in> set (items c)
                    then (Failure 400 ''Post is already in this collection'', s)
                    else
                      (let c' = c\<lparr>items := items c @ [pid]\<rparr>;
                           p' = p\<lparr>userCollection := Some cid\<rparr>;
                           s1 = (if validateCollection c' = []
                                 then s\<lparr>collections := (collections s)(cid \<mapsto> c')\<rparr>
                                 else s);
                           s2 = (if validatePost p' = []
                                 then s1\<lparr>posts := (posts s1)(pid \<mapsto> p')\<rparr>
                                 else s1)
                       in (case validateCollection c' of
                             m # ms \<Rightarrow> (errorHandler (ValidationError (m # ms)), s2)
                           | [] \<Rightarrow>
                               (case validatePost p' of
                                  m # ms \<Rightarrow> (errorHandler (ValidationError (m # ms)), s2)
                                | [] \<Rightarrow>
                                    (Success 200 ''Post added to collection successfully'',
                                     s2)))))))"

section \<open>Predicates of the properties\<close>

text \<open>
  \<open>post.likes.some(like => like.user.toString() === req.user._id.toString())\<close>, the
  liked state that the page /post/:id computes.
\<close>

definition isLikedBy :: "oid \<Rightarrow> post \<Rightarrow> bool" where
  "isLikedBy u p = list_ex (\<lambda>l. like_user l = u) (likes p)"

text \<open>
  The invariant that section 3 of the specification gives the like list of a post: each
  like entry references a distinct user.
\<close>

definition likesDistinct :: "post \<Rightarrow> bool" where
  "likesDistinct p = distinct (map like_user (likes p))"

text \<open>
  A post that the Post schema accepts. Every post that a handler stores is one
  (\<open>post.save()\<close> validates it), and the properties of the handlers that save a loaded
  post are stated for such posts.
\<close>

definition postValid :: "post \<Rightarrow> bool" where
  "postValid p = (validatePost p = [])"

text \<open>The events emitted under the name \<open>notification\<close> with a given \<open>type\<close>.\<close>

fun isNotification :: "ntype \<Rightarrow> event \<Rightarrow> bool" where
  "isNotification t (Notification t' un u pid m) = (t = t')"
| "isNotification t (NewPost un u pid m) = False"
| "isNotification t (PostLike pid u un b n) = False"
| "isNotification t (PostComment pid c n) = False"

section \<open>A concrete database\<close>

text \<open>
  Two users, one private post of the first user in a private collection of hers, and an
  empty public collection of hers; the same database after both users have liked the post;
  and a creation request with one tag that has no type.
\<close>

definition alice :: user where
  "alice = \<lparr>username = ''alice'', followers = [], following = []\<rparr>"

definition bob :: user where
  "bob = \<lparr>username = ''bob'', followers = [], following = []\<rparr>"

definition demoPost :: post where
  "demoPost =
     \<lparr>post_user = 1, caption = [0x68, 0x69], mediaURL = ''/uploads/posts/1.png'',
      mediaType = Image, tags = [], likes = [], comments = [],
      userCollection = Some 20, visibility = Private\<rparr>"

definition demoCollection :: user_collection where
  "demoCollection =
     \<lparr>coll_user = 1, coll_name = ''kicks'', description = [], category = ''sneakers'',
      isPrivate = True, coverImage = [], items = [10]\<rparr>"

definition openCollection :: user_collection where
  "openCollection =
     \<lparr>coll_user = 1, coll_name = ''grails'', description = [], category = ''sneakers'',
      isPrivate = False, coverImage = [], items = []\<rparr>"

definition demoStore :: store where
  "demoStore =
     \<lparr>users = [1 \<mapsto> alice, 2 \<mapsto> bob], posts = [10 \<mapsto> demoPost],
      collections = [20 \<mapsto> demoCollection, 21 \<mapsto> openCollection]\<rparr>"

definition likedStore :: store where
  "likedStore =
     demoStore\<lparr>posts :=
       [10 \<mapsto> demoPost\<lparr>likes := [\<lparr>like_user = 1, like_createdAt = 3\<rparr>,
                                    \<lparr>like_user = 2, like_createdAt = 4\<rparr>]\<rparr>]\<rparr>"

definition demoRequest :: post_req where
  "demoRequest =
     \<lparr>pr_caption = [0x68, 0x69],
      pr_tags = Some [\<lparr>tag_name = Some ''Nike'', tag_type = None\<rparr>],
      pr_userCollection = None, pr_visibility = None,
      pr_file = Some \<lparr>uniqueSuffix = ''1700000000000-42'', extname = ''.PNG'',
                       mimetype = ''image/png''\<rparr>\<rparr>"

section \<open>Lists: findIndex and splice\<close>

lemma findIndex_None: "(findIndex P xs = None) = (\<not> list_ex P xs)"
  by (induction xs) auto

lemma list_ex_findIndex: "list_ex P xs = (findIndex P xs \<noteq> None)"
  by (simp add: findIndex_None)

lemma findIndex_Some: "findIndex P xs = Some i \<Longrightarrow> i < length xs \<and> P (xs ! i)"
  by (induction xs arbitrary: i) (auto split: if_splits)

lemma findIndex_snoc: "\<not> list_ex P xs \<Longrightarrow> P y \<Longrightarrow> findIndex P (xs @ [y]) = Some (length xs)"
  by (induction xs) auto

lemma splice1_snoc: "splice1 (length xs) (xs @ [y]) = xs"
  by (simp add: splice1_def)

lemma splice1_Cons: "splice1 (Suc i) (x # xs) = x # splice1 i xs"
  by (simp add: splice1_def)

lemma length_splice1: "i < length xs \<Longrightarrow> Suc (length (splice1 i xs)) = length xs"
  by (auto simp add: splice1_def)

lemma set_splice1: "set (splice1 i xs) \<subseteq> set xs"
  by (auto simp add: splice1_def dest: in_set_takeD in_set_dropD)

lemma splice1_removes:
  assumes "distinct (map f xs)" "i < length xs"
  shows "\<not> list_ex (\<lambda>l. f l = f (xs ! i)) (splice1 i xs)"
proof -
  have "xs = take i xs @ (xs ! i) # drop (Suc i) xs"
    using assms(2) by (simp add: id_take_nth_drop)
  then have "distinct (map f (take i xs @ (xs ! i) # drop (Suc i) xs))"
    using assms(1) by simp
  then show ?thesis
    by (force simp add: splice1_def list_ex_iff image_iff)
qed

lemma distinct_splice1: "distinct (map f xs) \<Longrightarrow> distinct (map f (splice1 i xs))"
proof (induction xs arbitrary: i)
  case Nil
  then show ?case by (simp add: splice1_def)
next
  case (Cons x xs)
  show ?case
  proof (cases i)
    case 0
    then show ?thesis using Cons.prems by (simp add: splice1_def)
  next
    case (Suc j)
    have "f x \<notin> f ` set (splice1 j xs)"
      using Cons.prems set_splice1[of j xs] by auto
    then show ?thesis
      using Suc Cons by (simp add: splice1_Cons)
  qed
qed

section \<open>Stored posts are valid\<close>

text \<open>
  A post that is created is valid, and every handler that writes posts leaves every stored
  post valid when every stored post was: the handlers that save a post validate it, and
  the collection reference that deleting a collection clears has no validator.
\<close>

lemma validatePost_likes: "validatePost (p\<lparr>likes := l\<rparr>) = validatePost p"
  by (simp add: validatePost_def)

lemma validatePost_userCollection: "validatePost (p\<lparr>userCollection := c\<rparr>) = validatePost p"
  by (simp add: validatePost_def)

lemma newPost_valid: "newPost uid cap url mt tgs coll vis = Inr p \<Longrightarrow> postValid p"
  by (auto simp add: newPost_def postValid_def Let_def split: option.splits list.splits)

lemma createPost_keeps_postValid:
  assumes "\<And>k d. posts s k = Some d \<Longrightarrow> postValid d"
    and "createPost s newId ru req = (r, s', evs)" "posts s' q = Some p'"
  shows "postValid p'"
  using assms newPost_valid
  by (auto simp add: createPost_def Let_def
      split: option.splits list.splits if_splits sum.splits)

lemma toggleLike_keeps_postValid:
  assumes "\<And>k d. posts s k = Some d \<Longrightarrow> postValid d"
    and "toggleLike s now ru pid = (r, s', evs)" "posts s' q = Some p'"
  shows "postValid p'"
  using assms
  by (auto simp add: toggleLike_def Let_def postValid_def validatePost_likes
      split: option.splits list.splits if_splits)

lemma addComment_keeps_postValid:
  assumes "\<And>k d. posts s k = Some d \<Longrightarrow> postValid d"
    and "addComment s now ru pid t = (r, s', evs)" "posts s' q = Some p'"
  shows "postValid p'"
  using assms
  by (auto simp add: addComment_def Let_def postValid_def
      split: option.splits list.splits if_splits)

lemma addPostToCollection_keeps_postValid:
  assumes "\<And>k d. posts s k = Some d \<Longrightarrow> postValid d"
    and "addPostToCollection s ru cid postId = (r, s')" "posts s' q = Some p'"
  shows "postValid p'"
  using assms
  by (auto simp add: addPostToCollection_def Let_def postValid_def
      split: option.splits list.splits if_splits)

lemma deleteCollection_keeps_postValid:
  assumes "\<And>k d. posts s k = Some d \<Longrightarrow> postValid d"
    and "deleteCollection s ru cid = (r, s')" "posts s' q = Some p'"
  shows "postValid p'"
  using assms
  by (auto simp add: deleteCollection_def unsetCollection_def postValid_def
      validatePost_userCollection split: option.splits if_splits)

section \<open>The like list keeps its invariant\<close>

text \<open>
  A post is created with no likes, and the like toggle is the only handler that writes the
  like list: it keeps the entries' users distinct.
\<close>

lemma newPost_no_likes: "newPost uid cap url mt tgs coll vis = Inr p \<Longrightarrow> likes p = []"
  by (auto simp add: newPost_def Let_def split: option.splits list.splits)

lemma toggleLike_keeps_likesDistinct:
  assumes "posts s pid = Some p" "likesDistinct p"
    and "toggleLike s now ru pid = (r, s', evs)"
  shows "\<exists>p'. posts s' pid = Some p' \<and> likesDistinct p'"
proof (cases "findIndex (\<lambda>l. like_user l = fst ru) (likes p)")
  case None
  then have "fst ru \<notin> like_user ` set (likes p)"
    by (auto simp add: findIndex_None list_ex_iff)
  then show ?thesis
    using assms None
    by (auto simp add: toggleLike_def Let_def likesDistinct_def split: list.splits)
next
  case (Some i)
  then show ?thesis
    using assms distinct_splice1[of like_user "likes p" i]
    by (auto simp add: toggleLike_def Let_def likesDistinct_def split: list.splits)
qed

section \<open>Retrieval of a single post\<close>

text \<open>
  Neither handler reads the visibility of the post: whoever asks, an existing post is
  returned, and the page is rendered whenever the owner's document exists.
\<close>

lemma route_getPost_any_viewer:
  "posts s pid = Some p \<Longrightarrow> route_getPost s cred pid = Success 200 (populatePost s pid p)"
  by (simp add: route_getPost_def getPost_def)

lemma route_viewPost_any_viewer:
  "posts s pid = Some p \<Longrightarrow> users s (post_user p) = Some d \<Longrightarrow>
   \<exists>page. route_viewPost s cred pid = Success 200 page \<and> pp_post page = populatePost s pid p"
  by (auto simp add: route_viewPost_def viewPost_def split: option.splits)

text \<open>
  Claim C1. A private post is to be returned to its owner only; every other viewer, the
  anonymous one included, is to get a not-found or forbidden answer. The code does not do
  this: post 10 of the concrete database is private and belongs to user 1, and both
  GET /api/posts/:id and the page /post/:id answer 200 with the post, to an anonymous
  viewer and to user 2 alike.
\<close>

theorem private_post_served_to_any_viewer:
  "visibility demoPost = Private \<and> post_user demoPost = 1
   \<and> route_getPost demoStore None 10 = Success 200 (populatePost demoStore 10 demoPost)
   \<and> route_getPost demoStore (Some 2) 10 = Success 200 (populatePost demoStore 10 demoPost)
   \<and> route_viewPost demoStore None 10 =
       Success 200 \<lparr>pp_user = None, pp_post = populatePost demoStore 10 demoPost,
                    pp_isLiked = False, pp_isOwner = False, pp_likesCount = 0,
                    pp_commentsCount = 0\<rparr>
   \<and> route_viewPost demoStore (Some 2) 10 =
       Success 200 \<lparr>pp_user = Some (2, bob), pp_post = populatePost demoStore 10 demoPost,
                    pp_isLiked = False, pp_isOwner = False, pp_likesCount = 0,
                    pp_commentsCount = 0\<rparr>"
  by (simp add: route_getPost_def getPost_def route_viewPost_def viewPost_def
      demoStore_def demoPost_def)

section \<open>The follow toggle\<close>

text \<open>
  Claim C2. For distinct users A and B, the follow toggle by A on B succeeds, and right
  after it B is in A's following list exactly when A is in B's followers list: both are
  there after a follow, neither after an unfollow. The answer's \<open>isFollowing\<close> is that
  state, the opposite of B's membership in A's following list before the call.
\<close>

theorem follow_toggle_symmetric:
  assumes "users s a = Some A" "users s b = Some B" "a \<noteq> b"
    and "followToggle s (a, d) b = (r, s', evs)"
  shows "\<exists>body A' B'. r = Success 200 body \<and> users s' a = Some A' \<and> users s' b = Some B'
      \<and> (b \<in> set (following A')) = (a \<in> set (followers B'))
      \<and> (b \<in> set (following A')) = fb_isFollowing body
      \<and> fb_isFollowing body = (b \<notin> set (following A))"
  using assms by (auto simp add: followToggle_def Let_def split: if_splits)

theorem follow_toggle_symmetric_witness:
  "users demoStore 1 = Some alice \<and> users demoStore 2 = Some bob \<and> (1 :: oid) \<noteq> 2
   \<and> (\<exists>r s' evs A' B'. followToggle demoStore (1, alice) 2 = (r, s', evs)
         \<and> users s' 1 = Some A' \<and> users s' 2 = Some B'
         \<and> 2 \<in> set (following A') \<and> 1 \<in> set (followers B'))"
proof -
  have a: "users demoStore 1 = Some alice" and b: "users demoStore 2 = Some bob"
    by (simp_all add: demoStore_def)
  have n: "(1 :: oid) \<noteq> 2" by simp
  have f: "2 \<notin> set (following alice)" by (simp add: alice_def)
  obtain r s' evs where t: "followToggle demoStore (1, alice) 2 = (r, s', evs)"
    by (cases "followToggle demoStore (1, alice) 2") auto
  show ?thesis
    using follow_toggle_symmetric[OF a b n t] a b t f by auto
qed

text \<open>
  Claim C5. A follow toggle by a user on that same user is answered 400 with a validation
  message, by the handler and by the guarded route alike, and the database, so both
  relationship lists of the user, is as before; nothing is emitted.
\<close>

theorem self_follow_rejected:
  "users s u = Some d \<Longrightarrow>
   followToggle s (u, d') u = (Failure 400 ''You cannot follow yourself'', s, [])
   \<and> route_follow s (Some u) u = (Failure 400 ''You cannot follow yourself'', s, [])"
  by (simp add: followToggle_def route_follow_def)

theorem self_follow_rejected_witness:
  "users demoStore 1 = Some alice
   \<and> followToggle demoStore (1, alice) 1 =
       (Failure 400 ''You cannot follow yourself'', demoStore, [])
   \<and> route_follow demoStore (Some 1) 1 =
       (Failure 400 ''You cannot follow yourself'', demoStore, [])"
proof -
  have a: "users demoStore 1 = Some alice"
    by (simp add: demoStore_def)
  show ?thesis
    using self_follow_rejected[OF a, of alice] a by simp
qed

section \<open>The like toggle\<close>

text \<open>
  Claim C3. On a stored post, one that the schema accepts and whose like entries reference
  distinct users (the invariant of the data model; the lemmas above show that the handlers
  keep both), two like toggles in succession by the same user, with nothing in between,
  both succeed; each answers the like count and the liked state of
  the post as it has just been stored; the first flips the user's liked state, the second
  restores it; and the post ends with its original like count and with every field other
  than the like list as it was.
\<close>

theorem toggleLike_twice_round_trip:
  assumes "posts s pid = Some p" "postValid p" "likesDistinct p"
    and "toggleLike s t1 ru pid = (r1, s1, e1)" "toggleLike s1 t2 ru pid = (r2, s2, e2)"
  shows "\<exists>p1 p2. posts s1 pid = Some p1 \<and> posts s2 pid = Some p2
     \<and> r1 = Success 200 \<lparr>lb_isLiked = isLikedBy (fst ru) p1, lb_totalLikes = length (likes p1)\<rparr>
     \<and> r2 = Success 200 \<lparr>lb_isLiked = isLikedBy (fst ru) p2, lb_totalLikes = length (likes p2)\<rparr>
     \<and> isLikedBy (fst ru) p1 = (\<not> isLikedBy (fst ru) p)
     \<and> isLikedBy (fst ru) p2 = isLikedBy (fst ru) p
     \<and> length (likes p2) = length (likes p)
     \<and> p2\<lparr>likes := likes p\<rparr> = p"
proof (cases "findIndex (\<lambda>l. like_user l = fst ru) (likes p)")
  case None
  then have nl: "\<not> list_ex (\<lambda>l. like_user l = fst ru) (likes p)"
    by (simp add: findIndex_None)
  have fi: "findIndex (\<lambda>l. like_user l = fst ru)
              (likes p @ [\<lparr>like_user = fst ru, like_createdAt = t1\<rparr>]) = Some (length (likes p))"
    using nl by (simp add: findIndex_snoc)
  have v: "validatePost p = []"
    using assms(2) by (simp add: postValid_def)
  show ?thesis
    using assms(1,4,5) None nl fi v
    by (auto simp add: toggleLike_def Let_def isLikedBy_def splice1_snoc validatePost_likes)
next
  case (Some i)
  then have i: "i < length (likes p)" "like_user (likes p ! i) = fst ru"
    using findIndex_Some[OF Some] by auto
  have nl: "\<not> list_ex (\<lambda>l. like_user l = fst ru) (splice1 i (likes p))"
    using splice1_removes[of like_user "likes p" i] assms(3) i
    by (simp add: likesDistinct_def)
  then have fi: "findIndex (\<lambda>l. like_user l = fst ru) (splice1 i (likes p)) = None"
    by (simp add: findIndex_None)
  have l: "list_ex (\<lambda>l. like_user l = fst ru) (likes p)"
    using i by (auto simp add: list_ex_iff)
  have v: "validatePost p = []"
    using assms(2) by (simp add: postValid_def)
  show ?thesis
    using assms(1,4,5) Some nl fi l v length_splice1[OF i(1)]
    by (auto simp add: toggleLike_def Let_def isLikedBy_def validatePost_likes)
qed

theorem toggleLike_twice_round_trip_witness:
  "(\<exists>p. posts likedStore 10 = Some p \<and> postValid p \<and> likesDistinct p
         \<and> length (likes p) = 2 \<and> isLikedBy 2 p)
   \<and> (\<exists>r1 s1 e1 r2 s2 e2 p1 p2.
         toggleLike likedStore 5 (2, bob) 10 = (r1, s1, e1)
         \<and> toggleLike s1 6 (2, bob) 10 = (r2, s2, e2)
         \<and> posts s1 10 = Some p1 \<and> length (likes p1) = 1 \<and> \<not> isLikedBy 2 p1
         \<and> posts s2 10 = Some p2 \<and> length (likes p2) = 2 \<and> isLikedBy 2 p2)"
proof -
  define p where "p = demoPost\<lparr>likes := [\<lparr>like_user = 1, like_createdAt = 3\<rparr>,
                                         \<lparr>like_user = 2, like_createdAt = 4\<rparr>]\<rparr>"
  have g: "posts likedStore 10 = Some p"
    by (simp add: likedStore_def p_def)
  have d: "likesDistinct p"
    by (simp add: likesDistinct_def p_def)
  have v: "postValid p"
    by (simp add: postValid_def validatePost_def validateCaption_def validateMediaURL_def
        p_def demoPost_def)
  have l: "length (likes p) = 2" "isLikedBy 2 p"
    by (simp_all add: p_def isLikedBy_def)
  obtain r1 s1 e1 where t1: "toggleLike likedStore 5 (2, bob) 10 = (r1, s1, e1)"
    by (cases "toggleLike likedStore 5 (2, bob) 10") auto
  obtain r2 s2 e2 where t2: "toggleLike s1 6 (2, bob) 10 = (r2, s2, e2)"
    by (cases "toggleLike s1 6 (2, bob) 10") auto
  obtain p1 p2 where r: "posts s1 10 = Some p1" "posts s2 10 = Some p2"
      "r1 = Success 200 \<lparr>lb_isLiked = isLikedBy 2 p1, lb_totalLikes = length (likes p1)\<rparr>"
      "isLikedBy 2 p1 = (\<not> isLikedBy 2 p)" "isLikedBy 2 p2 = isLikedBy 2 p"
      "length (likes p2) = length (likes p)"
    using toggleLike_twice_round_trip[OF g v d t1 t2] by auto
  have "validatePost demoPost = []"
    using v by (simp add: postValid_def p_def validatePost_likes)
  then have "length (likes p1) = 1"
    using t1 r(1)
    by (auto simp add: toggleLike_def Let_def likedStore_def splice1_def validatePost_likes)
  then show ?thesis
    using g v d l t1 t2 r by auto
qed

text \<open>
  Claim C8. Among the events of a like toggle on a stored post (one that the schema
  accepts, so that the save before the emits succeeds) there is a \<open>notification\<close> of type like
  exactly when the call is a like transition (the user was not in the like list) by a user
  other than the owner of the post; it is then the only one and goes to the owner's
  personal channel. An unlike and a like of one's own post emit no notification, of any
  type.
\<close>

theorem toggleLike_notification_iff:
  assumes "posts s pid = Some p" "postValid p" "toggleLike s now ru pid = (r, s', evs)"
  shows "filter (\<lambda>e. isNotification t (snd e)) evs =
     (if t = LikeN \<and> \<not> isLikedBy (fst ru) p \<and> fst ru \<noteq> post_user p
      then [(UserRoom (post_user p),
             Notification LikeN (username (snd ru)) (fst ru) (Some pid)
               (username (snd ru) @ '' liked your post''))]
      else [])"
  using assms
  by (cases "findIndex (\<lambda>l. like_user l = fst ru) (likes p)")
     (auto simp add: toggleLike_def isLikedBy_def Let_def list_ex_findIndex postValid_def
        validatePost_likes)

theorem toggleLike_notification_iff_witness:
  "posts demoStore 10 = Some demoPost \<and> postValid demoPost
   \<and> (\<exists>r s' evs. toggleLike demoStore 5 (2, bob) 10 = (r, s', evs)
         \<and> filter (\<lambda>e. isNotification LikeN (snd e)) evs =
             [(UserRoom 1, Notification LikeN ''bob'' 2 (Some 10) ''bob liked your post'')])"
proof -
  have p: "posts demoStore 10 = Some demoPost"
    by (simp add: demoStore_def)
  have l: "\<not> isLikedBy 2 demoPost" "post_user demoPost = 1" "username bob = ''bob''"
    by (simp_all add: demoPost_def isLikedBy_def bob_def)
  have v: "postValid demoPost"
    by (simp add: postValid_def validatePost_def validateCaption_def validateMediaURL_def
        demoPost_def)
  obtain r s' evs where t: "toggleLike demoStore 5 (2, bob) 10 = (r, s', evs)"
    by (cases "toggleLike demoStore 5 (2, bob) 10") auto
  show ?thesis
    using toggleLike_notification_iff[OF p v t, of LikeN] p v l t by simp
qed

section \<open>Creating a post\<close>

text \<open>
  The default that the handler gives a tag without a type is not a value of the schema's
  enum, so the document with such a tag does not validate: whatever else the request holds,
  it fails and nothing is written or emitted.
\<close>

lemma createPost_untyped_tag_fails:
  assumes "pr_tags req = Some ts" "t \<in> set ts" "tag_type t = None"
  shows "\<exists>n m. createPost s newId ru req = (Failure n m, s, [])"
proof -
  have "''general'' \<notin> set tagTypeEnum"
    by (simp add: tagTypeEnum_def)
  then have "validateTag (processTag t) \<noteq> []"
    using assms(3) by (simp add: validateTag_def processTag_def)
  then have "concat (map validateTag (map processTag ts)) \<noteq> []"
    using assms(2) by auto
  then have np: "\<exists>msgs. newPost u c url mt (map processTag ts) coll vis = Inl msgs"
    for u c url mt coll vis
    by (auto simp add: newPost_def validatePost_def Let_def split: option.splits list.splits)
  show ?thesis
  proof (cases "pr_file req")
    case None
    then show ?thesis by (simp add: createPost_def)
  next
    case (Some fl)
    obtain msgs where
      "newPost (fst ru) (pr_caption req) (''/uploads/posts/'' @ filename fl)
         (if take 6 (mimetype fl) = ''video/'' then Video else Image) (map processTag ts)
         (pr_userCollection req)
         (case pr_visibility req of None \<Rightarrow> ''public''
          | Some v \<Rightarrow> if v = [] then ''public'' else v) = Inl msgs"
      using np by blast
    then show ?thesis
      using assms(1) Some by (simp add: createPost_def Let_def)
  qed
qed

text \<open>
  Claim C4. A creation request with a tag that has no type is to succeed, the tag stored
  with a default type. The code does not do this: the request of user 1 with the caption
  \<open>hi\<close>, a media file that the upload filter accepts and the one tag
  \<open>{name: 'Nike'}\<close> is answered 400 with the message of the enum validator, and the
  database is as before.
\<close>

theorem createPost_untyped_tag_rejected:
  "createPost demoStore 11 (1, alice) demoRequest =
     (Failure 400 ''general is not a valid enum value for path type'', demoStore, [])"
  by (simp add: createPost_def demoRequest_def fileFilter_def allowedTypes_def
      toLowerCase_def notEmpty_def isLength_def newPost_def validatePost_def processTag_def
      validateCaption_def validateMediaURL_def validateTag_def tagTypeEnum_def)

section \<open>Comments\<close>

text \<open>
  The count of \<open>isLength\<close> never goes below zero: the pairs do not overlap. A text
  that passes the request validators on that count and is longer than 500 code units is
  rejected by the schema when the post is saved.
\<close>

lemma surrogatePairs_le: "2 * surrogatePairs t \<le> length t"
  by (induction t rule: surrogatePairs.induct) auto

lemma validatePost_comment:
  "validatePost (p\<lparr>comments := comments p @ [c]\<rparr>) = validatePost p @ validateComment c"
  by (simp add: validatePost_def)

lemma addComment_schema_rejects:
  assumes "posts s pid = Some p" "postValid p" "500 < length t" "isLength 500 t"
  shows "addComment s now ru pid t =
     (Failure 400 ''Path text is longer than the maximum allowed length (500)'', s, [])"
  using assms
  by (auto simp add: addComment_def notEmpty_def validateComment_def Let_def postValid_def
      validatePost_comment)

text \<open>
  Claim C7. On a stored post, one that the schema accepts, a comment whose text has
  length 501 is rejected with
  status 400 (by the request validators, or by the schema when surrogate pairs let it pass
  them), and nothing is written or emitted; a comment whose text has length 500 is answered
  201 with the new comment, which carries the commenter, the text and the time of the
  request, and with the new total, one more than before; exactly that comment is appended
  to the post's comment list. Length is that of the JavaScript string.
\<close>

theorem addComment_length_boundary:
  assumes "posts s pid = Some p" "postValid p" "length long = 501" "length ok = 500"
  shows "(\<exists>m. addComment s now ru pid long = (Failure 400 m, s, []))
   \<and> (\<exists>evs. addComment s now ru pid ok =
        (Success 201
           \<lparr>cb_message = ''Comment added successfully'',
            cb_comment =
              \<lparr>cv_comment = \<lparr>comment_user = fst ru, comment_text = ok, comment_createdAt = now\<rparr>,
               cv_author = populateUser s (fst ru)\<rparr>,
            cb_totalComments = Suc (length (comments p))\<rparr>,
         s\<lparr>posts := (posts s)(pid \<mapsto> p\<lparr>comments := comments p @
              [\<lparr>comment_user = fst ru, comment_text = ok, comment_createdAt = now\<rparr>]\<rparr>)\<rparr>,
         evs))"
proof -
  have long: "long \<noteq> []" "500 < length long"
    using assms(3) by auto
  have ok: "ok \<noteq> []" "\<not> 500 < length ok" "isLength 500 ok"
    using assms(4) by (auto simp add: isLength_def)
  have v: "validatePost p = []"
    using assms(2) by (simp add: postValid_def)
  have "\<exists>m. addComment s now ru pid long = (Failure 400 m, s, [])"
    using assms(1) long v
    by (simp add: addComment_def notEmpty_def validateComment_def Let_def
        validatePost_comment)
  moreover have "\<exists>evs. addComment s now ru pid ok =
        (Success 201
           \<lparr>cb_message = ''Comment added successfully'',
            cb_comment =
              \<lparr>cv_comment = \<lparr>comment_user = fst ru, comment_text = ok, comment_createdAt = now\<rparr>,
               cv_author = populateUser s (fst ru)\<rparr>,
            cb_totalComments = Suc (length (comments p))\<rparr>,
         s\<lparr>posts := (posts s)(pid \<mapsto> p\<lparr>comments := comments p @
              [\<lparr>comment_user = fst ru, comment_text = ok, comment_createdAt = now\<rparr>]\<rparr>)\<rparr>,
         evs)"
    using assms(1) ok v
    by (simp add: addComment_def notEmpty_def validateComment_def Let_def populateUser_def
        validatePost_comment)
  ultimately show ?thesis by blast
qed

theorem addComment_length_boundary_witness:
  "posts demoStore 10 = Some demoPost \<and> postValid demoPost
   \<and> length (replicate 501 (0x61 :: 16 word)) = 501
   \<and> length (replicate 500 (0x61 :: 16 word)) = 500
   \<and> (\<exists>m. addComment demoStore 7 (2, bob) 10 (replicate 501 0x61) =
            (Failure 400 m, demoStore, []))
   \<and> (\<exists>r s' evs. addComment demoStore 7 (2, bob) 10 (replicate 500 0x61) =
            (Success 201 r, s', evs) \<and> cb_totalComments r = 1)"
proof -
  have p: "posts demoStore 10 = Some demoPost"
    by (simp add: demoStore_def)
  have c: "comments demoPost = []"
    by (simp add: demoPost_def)
  have v: "postValid demoPost"
    by (simp add: postValid_def validatePost_def validateCaption_def validateMediaURL_def
        demoPost_def)
  show ?thesis
    using addComment_length_boundary[OF p v, of "replicate 501 0x61" "replicate 500 0x61"
        7 "(2, bob)"] p v c
    by auto
qed

section \<open>Collections\<close>

text \<open>
  Claim C6. When the owner of a collection deletes it, the call succeeds and the collection
  is gone; a post that referenced it is still stored, with no collection reference and
  every other field as before, and GET /api/posts/:id returns it to any caller.
\<close>

theorem deleteCollection_detaches_posts:
  assumes "collections s cid = Some c" "coll_user c = fst ru"
    and "posts s pid = Some p" "userCollection p = Some cid"
  shows "\<exists>s'. deleteCollection s ru cid = (Success 200 ''Collection deleted successfully'', s')
     \<and> collections s' cid = None
     \<and> posts s' pid = Some (p\<lparr>userCollection := None\<rparr>)
     \<and> route_getPost s' cred pid =
         Success 200 (populatePost s' pid (p\<lparr>userCollection := None\<rparr>))"
  using assms
  by (simp add: deleteCollection_def unsetCollection_def route_getPost_def getPost_def)

theorem deleteCollection_detaches_posts_witness:
  "collections demoStore 20 = Some demoCollection \<and> coll_user demoCollection = 1
   \<and> posts demoStore 10 = Some demoPost \<and> userCollection demoPost = Some 20
   \<and> (\<exists>s'. deleteCollection demoStore (1, alice) 20 =
              (Success 200 ''Collection deleted successfully'', s')
         \<and> collections s' 20 = None
         \<and> posts s' 10 = Some (demoPost\<lparr>userCollection := None\<rparr>))"
proof -
  have c: "collections demoStore 20 = Some demoCollection"
    and p: "posts demoStore 10 = Some demoPost"
    by (simp_all add: demoStore_def)
  have o: "coll_user demoCollection = fst (1 :: oid, alice)"
    by (simp add: demoCollection_def)
  have u: "userCollection demoPost = Some 20"
    by (simp add: demoPost_def)
  show ?thesis
    using deleteCollection_detaches_posts[OF c o p u] c o p u by auto
qed

text \<open>
  Claim C9. An add-post request succeeds only when the acting user owns both the collection
  and the post (and the post is not yet among the items). When the post is already among the
  items of the collection, the request is answered with an error status and the database,
  so the items list and the post, is as before; for the owner of both it is the 400 of the
  duplicate check.
\<close>

theorem addPostToCollection_guarded:
  "(addPostToCollection s ru cid (Some pid) = (Success n m, s') \<longrightarrow>
      (\<exists>c p. collections s cid = Some c \<and> posts s pid = Some p
             \<and> coll_user c = fst ru \<and> post_user p = fst ru \<and> pid \<notin> set (items c)))
   \<and> (collections s cid = Some c \<and> pid \<in> set (items c) \<longrightarrow>
      (\<exists>n m. addPostToCollection s ru cid (Some pid) = (Failure n m, s) \<and> 400 \<le> n))
   \<and> (collections s cid = Some c \<and> pid \<in> set (items c) \<and> posts s pid = Some p
       \<and> coll_user c = fst ru \<and> post_user p = fst ru \<longrightarrow>
      addPostToCollection s ru cid (Some pid) =
        (Failure 400 ''Post is already in this collection'', s))"
  by (auto simp add: addPostToCollection_def Let_def
      split: option.splits if_splits list.splits)

theorem addPostToCollection_guarded_witness:
  "(\<exists>s'. addPostToCollection demoStore (1, alice) 21 (Some 10) =
            (Success 200 ''Post added to collection successfully'', s'))
   \<and> coll_user openCollection = 1 \<and> post_user demoPost = 1
   \<and> collections demoStore 20 = Some demoCollection \<and> 10 \<in> set (items demoCollection)
   \<and> posts demoStore 10 = Some demoPost \<and> coll_user demoCollection = 1
   \<and> addPostToCollection demoStore (1, alice) 20 (Some 10) =
       (Failure 400 ''Post is already in this collection'', demoStore)"
proof -
  have c: "collections demoStore 20 = Some demoCollection"
    and c': "collections demoStore 21 = Some openCollection"
    and p: "posts demoStore 10 = Some demoPost"
    by (simp_all add: demoStore_def)
  have f: "coll_user demoCollection = 1" "coll_user openCollection = 1"
    "post_user demoPost = 1" "10 \<in> set (items demoCollection)" "items openCollection = []"
    by (simp_all add: demoCollection_def openCollection_def demoPost_def)
  have v: "validatePost (demoPost\<lparr>userCollection := Some 21\<rparr>) = []"
    "validateCollection (openCollection\<lparr>items := [10]\<rparr>) = []"
    by (simp_all add: validatePost_def validateCaption_def validateMediaURL_def demoPost_def
        validateCollection_def categoryEnum_def openCollection_def)
  obtain s' where t: "addPostToCollection demoStore (1, alice) 21 (Some 10) =
      (Success 200 ''Post added to collection successfully'', s')"
    using c' p f v by (simp add: addPostToCollection_def Let_def)
  show ?thesis
    using addPostToCollection_guarded[of demoStore "(1, alice)" 21 10 200
        "''Post added to collection successfully''" s' demoCollection demoPost]
      addPostToCollection_guarded[of demoStore "(1, alice)" 20 10 200
        "''Post added to collection successfully''" s' demoCollection demoPost]
      c p f t
    by simp
qed

text \<open>
  Claim C10. GET /api/collections/:id runs with no guard, so its handler sees no
  authenticated identity: for a collection whose \<open>isPrivate\<close> flag is set the answer
  is 403 whatever credential the request carries, that of the owner included.
\<close>

theorem private_collection_forbidden_for_all:
  "collections s cid = Some c \<Longrightarrow> isPrivate c \<Longrightarrow>
   route_getCollection s cred cid = Failure 403 ''This collection is private''"
  by (simp add: route_getCollection_def getCollection_def)

theorem private_collection_forbidden_for_all_witness:
  "collections demoStore 20 = Some demoCollection \<and> isPrivate demoCollection
   \<and> coll_user demoCollection = 1
   \<and> route_getCollection demoStore (Some 1) 20 = Failure 403 ''This collection is private''"
proof -
  have c: "collections demoStore 20 = Some demoCollection"
    by (simp add: demoStore_def)
  have i: "isPrivate demoCollection" "coll_user demoCollection = 1"
    by (simp_all add: demoCollection_def)
  show ?thesis
    using private_collection_forbidden_for_all[OF c i(1), of "Some 1"] c i by simp
qed

end
